theory Spec2Isabelle
  imports Complex_Main "HOL-Library.AList"
begin

section \<open>Personal finance tracker: session state, handlers and dashboard\<close>

text \<open>
  The program is one Streamlit script, \<^verbatim>\<open>PersonalFinanceTracker-complete-fix.py\<close>.
  Its session state holds a list of transactions and an optional edit index; three button
  handlers mutate it (save, edit, delete) and \<^verbatim>\<open>plot_dashboard\<close> aggregates the list.

  Amounts are the values of \<^verbatim>\<open>st.number_input\<close>, Python floats. An amount is
  represented by the rational number it denotes. The dashboard is given twice: once with
  exact addition and subtraction (\<open>plot_dashboard\<close>), for what does not depend on
  rounding, and once with the rounding arithmetic of binary64 (\<open>plot_dashboard_f64\<close>),
  for the sums, where rounding decides. \<open>run_script\<close> is one run of the whole script:
  the form, its widgets and the button that was pressed.
  List positions are natural numbers: every index the script uses comes from
  \<^verbatim>\<open>enumerate\<close>, so Python's negative indexing never applies.
\<close>

subsection \<open>Data\<close>

type_synonym amount_t = rat

text \<open>A transaction is the dict \<^verbatim>\<open>{"type": ..., "category": ..., "amount": ...}\<close>.\<close>

record transaction =
  ttype :: string
  category :: string
  amount :: amount_t

text \<open>\<^verbatim>\<open>st.session_state\<close>: the two keys the script creates.\<close>

record session_state =
  transactions :: "transaction list"
  editing_index :: "nat option"

definition initial_state :: session_state where
  "initial_state = \<lparr>transactions = [], editing_index = None\<rparr>"

text \<open>The exceptions the modelled statements can raise.\<close>

datatype error = IndexError | ValueError | StreamlitAPIException

subsection \<open>Category lists\<close>

definition income_categories :: "string list" where
  "income_categories =
     [''Salary'', ''Business/Profession'', ''Interest'', ''Dividends'', ''Capital Gains'',
      ''Rental'', ''Other Asset Income'', ''Refunds/Reimbursements'', ''Gifts'',
      ''Transfers In'', ''Other/One time'']"

definition expense_categories :: "string list" where
  "expense_categories =
     [''Rent'', ''Home Loan'', ''Vehicle loan'', ''Transport'', ''Outside Food'',
      ''Groceries'', ''Utilities'', ''Insurance'', ''Health'', ''Family & Education'',
      ''Lifestyle'', ''Travel'', ''Fuel'', ''Taxes'', ''Savings & Investments'',
      ''House help & Services'', ''One-time'', ''Transfers Out'', ''Other/One time'']"

text \<open>
  The vocabularies as section 6 of the specification spells them, label by label, kept
  apart from the two lists above so that the two can be compared.
\<close>

definition spec_income_vocabulary :: "string list" where
  "spec_income_vocabulary =
     ''Salary'' # ''Business/Profession'' # ''Interest'' # ''Dividends'' #
     ''Capital Gains'' # ''Rental'' # ''Other Asset Income'' #
     ''Refunds/Reimbursements'' # ''Gifts'' # ''Transfers In'' # ''Other/One time'' # []"

definition spec_expense_vocabulary :: "string list" where
  "spec_expense_vocabulary =
     ''Rent'' # ''Home Loan'' # ''Vehicle loan'' # ''Transport'' # ''Outside Food'' #
     ''Groceries'' # ''Utilities'' # ''Insurance'' # ''Health'' # ''Family & Education'' #
     ''Lifestyle'' # ''Travel'' # ''Fuel'' # ''Taxes'' # ''Savings & Investments'' #
     ''House help & Services'' # ''One-time'' # ''Transfers Out'' # ''Other/One time'' # []"

text \<open>
  The transaction invariants of the specification: the type is one of the two the form
  offers, the category belongs to the list of that type, the amount is positive.
\<close>

definition valid_transaction :: "transaction \<Rightarrow> bool" where
  "valid_transaction t \<longleftrightarrow>
     (ttype t = ''income'' \<and> category t \<in> set income_categories \<or>
      ttype t = ''expense'' \<and> category t \<in> set expense_categories) \<and>
     0 < amount t"

definition valid_transactions :: "transaction list \<Rightarrow> bool" where
  "valid_transactions ts \<longleftrightarrow> list_all valid_transaction ts"

subsection \<open>Dictionaries\<close>

text \<open>
  A Python dict keeps its keys in insertion order; it is an association list with
  distinct keys. Storing under a present key keeps the key's place, storing under a new
  key appends, which is what \<^const>\<open>AList.update\<close> does.
\<close>

type_synonym cat_dict = "(string \<times> amount_t) list"

definition dict_get :: "cat_dict \<Rightarrow> string \<Rightarrow> amount_t \<Rightarrow> amount_t" where
  "dict_get d k dflt = (case map_of d k of None \<Rightarrow> dflt | Some v \<Rightarrow> v)"

definition dict_values :: "cat_dict \<Rightarrow> amount_t list" where
  "dict_values d = map snd d"

subsection \<open>The dashboard in exact arithmetic\<close>

text \<open>
  The loop of \<^verbatim>\<open>plot_dashboard\<close>:
  \<^verbatim>\<open>
    for t in st.session_state.transactions:
        cats = income_by_cat if t["type"] == "income" else expense_by_cat
        cats[t["category"]] = cats.get(t["category"], 0) + t["amount"]
  \<close>
  with the two dicts passed along.
\<close>

fun group_by_cat :: "transaction list \<Rightarrow> cat_dict \<times> cat_dict \<Rightarrow> cat_dict \<times> cat_dict" where
  "group_by_cat [] (inc, ex) = (inc, ex)"
| "group_by_cat (t # ts) (inc, ex) =
     (if ttype t = ''income''
      then group_by_cat ts
             (AList.update (category t) (dict_get inc (category t) 0 + amount t) inc, ex)
      else group_by_cat ts
             (inc, AList.update (category t) (dict_get ex (category t) 0 + amount t) ex))"

text \<open>
  What \<^verbatim>\<open>plot_dashboard\<close> computes and hands to the charts and the metrics. A chart
  that is replaced by the placeholder text is \<open>None\<close>; the allocation chart holds the
  pair \<^verbatim>\<open>[display_expense, savings]\<close>.
\<close>

record report =
  income_by_cat :: cat_dict
  expense_by_cat :: cat_dict
  total_income :: amount_t
  total_expense :: amount_t
  balance :: amount_t
  income_chart :: "cat_dict option"
  expense_chart :: "cat_dict option"
  allocation :: "(amount_t \<times> amount_t) option"

definition allocation_chart :: "amount_t \<Rightarrow> amount_t \<Rightarrow> amount_t \<Rightarrow> (amount_t \<times> amount_t) option" where
  "allocation_chart total_inc total_exp bal =
     (if 0 < total_inc then
        (let savings = max 0 bal;
             display_expense = min total_exp total_inc
         in if 0 < display_expense \<or> 0 < savings
            then Some (display_expense, savings)
            else None)
      else None)"

definition plot_dashboard :: "transaction list \<Rightarrow> report" where
  "plot_dashboard ts =
     (let (inc, ex) = group_by_cat ts ([], []);
          total_inc = sum_list (dict_values inc);
          total_exp = sum_list (dict_values ex);
          bal = total_inc - total_exp
      in \<lparr>income_by_cat = inc, expense_by_cat = ex,
          total_income = total_inc, total_expense = total_exp, balance = bal,
          income_chart = (if 0 < total_inc then Some inc else None),
          expense_chart = (if 0 < total_exp then Some ex else None),
          allocation = allocation_chart total_inc total_exp bal\<rparr>)"

text \<open>
  The dashboard section of the script: with no transaction there is only an info text
  and \<^verbatim>\<open>plot_dashboard\<close> is not called.
\<close>

definition dashboard_display :: "session_state \<Rightarrow> report option" where
  "dashboard_display s =
     (if transactions s = [] then None else Some (plot_dashboard (transactions s)))"

subsection \<open>Binary floating point\<close>

text \<open>
  The amounts of the program are Python floats, IEEE 754 binary64 values, and its
  additions and subtractions round. A float is represented by the rational number it
  denotes; \<open>rnd\<close> rounds a rational to the nearest number with a 53-bit significand,
  ties to the even significand. The exponent is not bounded: overflow to infinity and
  the subnormal range, both out of reach of sums of a session's amounts, are not
  modelled. Comparisons, \<^verbatim>\<open>min\<close> and \<^verbatim>\<open>max\<close> of floats are exact, so they are
  the ones of the rationals.

  \<open>scale_down\<close> halves a number of at least \<open>2^53\<close> until it is below \<open>2^53\<close>, and
  \<open>scale_up\<close> doubles a positive number below \<open>2^52\<close> until it is at least \<open>2^52\<close>;
  both keep the power of two taken out.
\<close>

function scale_down :: "rat \<Rightarrow> rat \<Rightarrow> rat \<times> rat" where
  "scale_down y s = (if 2 ^ 53 \<le> y then scale_down (y / 2) (s * 2) else (y, s))"
  by pat_completeness auto
termination
proof (relation "measure (\<lambda>(y, s). nat \<lfloor>y\<rfloor>)")
  show "wf (measure (\<lambda>(y :: rat, s :: rat). nat \<lfloor>y\<rfloor>))" by simp
next
  fix y s :: rat
  assume "2 ^ 53 \<le> y"
  then have y1: "1 \<le> y" by simp
  have f1: "y < of_int \<lfloor>y\<rfloor> + 1" using floor_correct[of y] by simp
  have "(1::int) \<le> \<lfloor>y\<rfloor>" using y1 by (simp add: le_floor_iff)
  then have f2: "(1::rat) \<le> of_int \<lfloor>y\<rfloor>" and f3: "0 < \<lfloor>y\<rfloor>" by simp_all
  have "y / 2 < of_int \<lfloor>y\<rfloor>" using f1 f2 by linarith
  then have "\<lfloor>y / 2\<rfloor> < \<lfloor>y\<rfloor>" by (simp add: floor_less_iff)
  with f3 have "nat \<lfloor>y / 2\<rfloor> < nat \<lfloor>y\<rfloor>" by simp
  then show "((y / 2, s * 2), (y, s)) \<in> measure (\<lambda>(y, s). nat \<lfloor>y\<rfloor>)"
    by simp
qed

function scale_up :: "rat \<Rightarrow> rat \<Rightarrow> rat \<times> rat" where
  "scale_up y s = (if 0 < y \<and> y < 2 ^ 52 then scale_up (y * 2) (s / 2) else (y, s))"
  by pat_completeness auto
termination
proof (relation "measure (\<lambda>(y, s). nat \<lfloor>2 ^ 52 / y\<rfloor>)")
  show "wf (measure (\<lambda>(y :: rat, s :: rat). nat \<lfloor>2 ^ 52 / y\<rfloor>))" by simp
next
  fix y s :: rat
  assume a: "0 < y \<and> y < 2 ^ 52"
  define c :: rat where "c = 2 ^ 52 / y"
  have c1: "1 \<le> c" using a by (simp add: c_def)
  have f1: "c < of_int \<lfloor>c\<rfloor> + 1" using floor_correct[of c] by simp
  have "(1::int) \<le> \<lfloor>c\<rfloor>" using c1 by (simp add: le_floor_iff)
  then have f2: "(1::rat) \<le> of_int \<lfloor>c\<rfloor>" and f3: "0 < \<lfloor>c\<rfloor>" by simp_all
  have "c / 2 < of_int \<lfloor>c\<rfloor>" using f1 f2 by linarith
  then have "\<lfloor>c / 2\<rfloor> < \<lfloor>c\<rfloor>" by (simp add: floor_less_iff)
  with f3 have "nat \<lfloor>c / 2\<rfloor> < nat \<lfloor>c\<rfloor>" by simp
  moreover have "2 ^ 52 / (y * 2) = c / 2" by (simp add: c_def)
  ultimately have "nat \<lfloor>2 ^ 52 / (y * 2)\<rfloor> < nat \<lfloor>2 ^ 52 / y\<rfloor>"
    by (simp only: c_def)
  then show "((y * 2, s / 2), (y, s)) \<in> measure (\<lambda>(y, s). nat \<lfloor>2 ^ 52 / y\<rfloor>)"
    by (simp only: in_measure split_conv)
qed

text \<open>A positive number as a significand in \<open>[2^52, 2^53)\<close> times a power of two.\<close>

definition normalise :: "rat \<Rightarrow> rat \<times> rat" where
  "normalise a = (if 2 ^ 53 \<le> a then scale_down a 1 else scale_up a 1)"

definition round_half_even :: "rat \<Rightarrow> int" where
  "round_half_even y =
     (let f = \<lfloor>y\<rfloor>; r = y - of_int f
      in if r < 1 / 2 then f else if 1 / 2 < r then f + 1 else if even f then f else f + 1)"

definition rnd :: "rat \<Rightarrow> rat" where
  "rnd x =
     (if x = 0 then 0
      else let (y, s) = normalise \<bar>x\<bar>
           in sgn x * of_int (round_half_even y) * s)"

text \<open>Float addition and subtraction: the exact result, rounded.\<close>

definition fadd :: "rat \<Rightarrow> rat \<Rightarrow> rat" where
  "fadd x y = rnd (x + y)"

definition fsub :: "rat \<Rightarrow> rat \<Rightarrow> rat" where
  "fsub x y = rnd (x - y)"

text \<open>The powers of two, positive and negative exponents alike.\<close>

definition pow2 :: "rat \<Rightarrow> bool" where
  "pow2 s \<longleftrightarrow> (\<exists>j::nat. s = 2 ^ j \<or> s = 1 / 2 ^ j)"

text \<open>
  The builtin \<^verbatim>\<open>sum\<close> on a list of floats, started at the integer 0. CPython up to
  3.11 adds from left to right. From 3.12 on it adds the first item to 0 and then runs
  Neumaier's compensated summation: the running sum \<open>f\<close> is rounded as before, the
  rounding errors are collected in \<open>c\<close>, and a non-zero \<open>c\<close> is added at the end.
\<close>

datatype cpython = Upto_3_11 | From_3_12

fun neumaier :: "rat \<times> rat \<Rightarrow> rat list \<Rightarrow> rat \<times> rat" where
  "neumaier (f, c) [] = (f, c)"
| "neumaier (f, c) (x # xs) =
     (let t = fadd f x
      in neumaier
           (t, if \<bar>x\<bar> \<le> \<bar>f\<bar> then fadd c (fadd (fsub f t) x) else fadd c (fadd (fsub x t) f))
           xs)"

fun py_sum :: "cpython \<Rightarrow> rat list \<Rightarrow> rat" where
  "py_sum Upto_3_11 xs = foldl fadd 0 xs"
| "py_sum From_3_12 [] = 0"
| "py_sum From_3_12 (x # xs) =
     (let (f, c) = neumaier (fadd 0 x, 0) xs in if c \<noteq> 0 then fadd f c else f)"

subsection \<open>The dashboard in floating point\<close>

text \<open>
  The same loop and the same function as above, with the arithmetic the program has:
  line 28 adds floats, lines 30 and 31 call \<^verbatim>\<open>sum\<close>, line 32 subtracts floats. The
  interpreter version decides \<^verbatim>\<open>sum\<close> and is a parameter.
\<close>

fun group_by_cat_f64 :: "transaction list \<Rightarrow> cat_dict \<times> cat_dict \<Rightarrow> cat_dict \<times> cat_dict" where
  "group_by_cat_f64 [] (inc, ex) = (inc, ex)"
| "group_by_cat_f64 (t # ts) (inc, ex) =
     (if ttype t = ''income''
      then group_by_cat_f64 ts
             (AList.update (category t) (fadd (dict_get inc (category t) 0) (amount t)) inc, ex)
      else group_by_cat_f64 ts
             (inc, AList.update (category t) (fadd (dict_get ex (category t) 0) (amount t)) ex))"

definition plot_dashboard_f64 :: "cpython \<Rightarrow> transaction list \<Rightarrow> report" where
  "plot_dashboard_f64 v ts =
     (let (inc, ex) = group_by_cat_f64 ts ([], []);
          total_inc = py_sum v (dict_values inc);
          total_exp = py_sum v (dict_values ex);
          bal = fsub total_inc total_exp
      in \<lparr>income_by_cat = inc, expense_by_cat = ex,
          total_income = total_inc, total_expense = total_exp, balance = bal,
          income_chart = (if 0 < total_inc then Some inc else None),
          expense_chart = (if 0 < total_exp then Some ex else None),
          allocation = allocation_chart total_inc total_exp bal\<rparr>)"

subsection \<open>The form and the button handlers\<close>

text \<open>
  A handler returns the exception it raised, if any, and the session state it leaves
  behind: Streamlit keeps the session state of a run that ended in an exception.
\<close>

type_synonym outcome = "error option \<times> session_state"

text \<open>\<^verbatim>\<open>list.index\<close>: the first position of a value, \<^verbatim>\<open>ValueError\<close> when absent.\<close>

fun list_index :: "'a list \<Rightarrow> 'a \<Rightarrow> nat option" where
  "list_index [] y = None"
| "list_index (x # xs) y =
     (if x = y then Some 0 else map_option Suc (list_index xs y))"

text \<open>
  The defaults of the form: the transaction under edit, read by position, or the fixed
  defaults. Reading a position that is gone raises \<^verbatim>\<open>IndexError\<close>.
\<close>

definition form_defaults :: "session_state \<Rightarrow> error + (nat \<times> nat \<times> amount_t)" where
  "form_defaults s =
     (case editing_index s of
        Some i \<Rightarrow>
          if i < length (transactions s) then
            (let t = transactions s ! i;
                 default_type_index = (if ttype t = ''income'' then 0 else 1);
                 default_cat_list =
                   (if ttype t = ''income'' then income_categories else expense_categories)
             in case list_index default_cat_list (category t) of
                  None \<Rightarrow> Inl ValueError
                | Some default_cat_index \<Rightarrow>
                    Inr (default_type_index, default_cat_index, amount t))
          else Inl IndexError
      | None \<Rightarrow> Inr (0, 0, 0))"

text \<open>\<^verbatim>\<open>str.lower\<close> on the ASCII letters.\<close>

definition lower_char :: "char \<Rightarrow> char" where
  "lower_char c =
     (let n = (of_char c :: nat) in if 65 \<le> n \<and> n \<le> 90 then char_of (n + 32) else c)"

definition lower :: "string \<Rightarrow> string" where
  "lower s = map lower_char s"

text \<open>The dict the save handler builds from the three widgets.\<close>

definition new_transaction :: "string \<Rightarrow> string \<Rightarrow> amount_t \<Rightarrow> transaction" where
  "new_transaction trans_type trans_category trans_amount =
     \<lparr>ttype = lower trans_type, category = trans_category, amount = trans_amount\<rparr>"

text \<open>
  The two widgets of the form are Streamlit's, not the repository's; what follows is
  their behaviour as far as the script depends on it.

  \<^verbatim>\<open>st.selectbox(label, options, index=i)\<close> raises \<^verbatim>\<open>StreamlitAPIException\<close> when
  \<open>i\<close> is not a position of \<open>options\<close>; otherwise it returns the option the user has
  picked, or the one at \<open>i\<close> when the user has picked none of them.
\<close>

definition selectbox :: "string list \<Rightarrow> nat \<Rightarrow> string option \<Rightarrow> error + string" where
  "selectbox options index picked =
     (if index < length options then
        Inr (case picked of
               Some c \<Rightarrow> if c \<in> set options then c else options ! index
             | None \<Rightarrow> options ! index)
      else Inl StreamlitAPIException)"

text \<open>
  \<^verbatim>\<open>st.number_input(label, min_value=m, value=v)\<close> raises \<^verbatim>\<open>StreamlitAPIException\<close>
  when the default \<open>v\<close> is below \<open>m\<close>; otherwise it returns what the user has entered, or
  \<open>v\<close> when nothing was entered. The browser does not submit an entry below \<open>m\<close>, so
  the widget keeps \<open>v\<close> then.
\<close>

definition number_input :: "amount_t \<Rightarrow> amount_t \<Rightarrow> amount_t option \<Rightarrow> error + amount_t" where
  "number_input min_value val entered =
     (if val < min_value then Inl StreamlitAPIException
      else Inr (case entered of
                  Some a \<Rightarrow> if min_value \<le> a then a else val
                | None \<Rightarrow> val))"

text \<open>The float that Python reads from the literal 0.01, the \<^verbatim>\<open>min_value\<close> of line 101.\<close>

definition float_0_01 :: amount_t where
  "float_0_01 = 5764607523034235 / 576460752303423488"

text \<open>
  The save button:
  \<^verbatim>\<open>
    if st.session_state.editing_index is not None:
        st.session_state.transactions[st.session_state.editing_index] = new_transaction
        st.session_state.editing_index = None
    else:
        st.session_state.transactions.append(new_transaction)
  \<close>
  The item assignment raises \<^verbatim>\<open>IndexError\<close> before it changes anything.
\<close>

definition save_transaction :: "transaction \<Rightarrow> session_state \<Rightarrow> outcome" where
  "save_transaction new s =
     (case editing_index s of
        Some i \<Rightarrow>
          if i < length (transactions s)
          then (None, s\<lparr>transactions := (transactions s)[i := new], editing_index := None\<rparr>)
          else (Some IndexError, s)
      | None \<Rightarrow> (None, s\<lparr>transactions := transactions s @ [new]\<rparr>))"

text \<open>The edit button of row \<open>i\<close>.\<close>

definition edit_button :: "nat \<Rightarrow> session_state \<Rightarrow> outcome" where
  "edit_button i s = (None, s\<lparr>editing_index := Some i\<rparr>)"

text \<open>\<^verbatim>\<open>list.pop(i)\<close>: the list without position \<open>i\<close>, or nothing when \<open>i\<close> is out of range.\<close>

definition pop :: "nat \<Rightarrow> 'a list \<Rightarrow> 'a list option" where
  "pop i xs = (if i < length xs then Some (take i xs @ drop (Suc i) xs) else None)"

text \<open>The delete button of row \<open>i\<close>: \<^verbatim>\<open>st.session_state.transactions.pop(i)\<close>.\<close>

definition delete_button :: "nat \<Rightarrow> session_state \<Rightarrow> outcome" where
  "delete_button i s =
     (case pop i (transactions s) of
        None \<Rightarrow> (Some IndexError, s)
      | Some ts \<Rightarrow> (None, s\<lparr>transactions := ts\<rparr>))"


text \<open>
  One run of the script, from top to bottom, on what the user did: the values of the
  form and at most one button. An exception ends the run where it is raised, so the
  statements after it are not reached:
  \<^item> lines 89 to 96 compute the defaults of the form;
  \<^item> lines 98 to 101 create the three widgets, with those defaults;
  \<^item> line 103 creates the save button, and runs the save handler when it was pressed;
  \<^item> lines 119 to 122 draw the dashboard, which reads the session state and changes
    nothing;
  \<^item> lines 130 to 146 create one edit and one delete button for each row, and run the
    handler of the one that was pressed. A row that does not exist has no button.
  The \<^verbatim>\<open>st.rerun()\<close> that ends a handler starts the next run, with no button pressed.
\<close>

datatype click = No_click | Save | Edit nat | Delete nat

record form_input =
  picked_type :: "string option"
  picked_category :: "string option"
  entered_amount :: "amount_t option"
  clicked :: click

definition run_script :: "form_input \<Rightarrow> session_state \<Rightarrow> outcome" where
  "run_script u s =
     (case form_defaults s of
        Inl e \<Rightarrow> (Some e, s)
      | Inr (default_type_index, default_cat_index, default_amount) \<Rightarrow>
          (case selectbox [''Income'', ''Expense''] default_type_index (picked_type u) of
             Inl e \<Rightarrow> (Some e, s)
           | Inr trans_type \<Rightarrow>
               (case selectbox
                       (if trans_type = ''Income'' then income_categories
                        else expense_categories)
                       default_cat_index (picked_category u) of
                  Inl e \<Rightarrow> (Some e, s)
                | Inr trans_category \<Rightarrow>
                    (case number_input float_0_01 default_amount (entered_amount u) of
                       Inl e \<Rightarrow> (Some e, s)
                     | Inr trans_amount \<Rightarrow>
                         (case clicked u of
                            Save \<Rightarrow>
                              save_transaction
                                (new_transaction trans_type trans_category trans_amount) s
                          | Edit i \<Rightarrow>
                              if i < length (transactions s) then edit_button i s
                              else (None, s)
                          | Delete i \<Rightarrow>
                              if i < length (transactions s) then delete_button i s
                              else (None, s)
                          | No_click \<Rightarrow> (None, s))))))"

text \<open>A session: one run after the other, each on the state the one before left.\<close>

fun run_session :: "form_input list \<Rightarrow> session_state \<Rightarrow> session_state" where
  "run_session [] s = s"
| "run_session (u # us) s = run_session us (snd (run_script u s))"

subsection \<open>Vocabulary of the statements\<close>

text \<open>The amounts of the transactions of one type and category, and of one type.\<close>

definition amounts_of :: "string \<Rightarrow> string \<Rightarrow> transaction list \<Rightarrow> amount_t list" where
  "amounts_of ty c ts = map amount (filter (\<lambda>t. ttype t = ty \<and> category t = c) ts)"

definition amounts_of_type :: "string \<Rightarrow> transaction list \<Rightarrow> amount_t list" where
  "amounts_of_type ty ts = map amount (filter (\<lambda>t. ttype t = ty) ts)"


text \<open>
  The categories of the transactions of one type, each once, in the order in which they
  first occur in the list.
\<close>

definition categories_of :: "string \<Rightarrow> transaction list \<Rightarrow> string list" where
  "categories_of ty ts = rev (remdups (rev (map category (filter (\<lambda>t. ttype t = ty) ts))))"

text \<open>The sum of a list of floats taken from left to right, every addition rounded.\<close>

definition float_sum :: "amount_t list \<Rightarrow> amount_t" where
  "float_sum xs = foldl fadd 0 xs"

text \<open>
  The entries of one type: one for each category that occurs, in the order of first
  occurrence, holding the float sum of the amounts of that type and category.
\<close>

definition entries_of :: "string \<Rightarrow> transaction list \<Rightarrow> cat_dict" where
  "entries_of ty ts = map (\<lambda>c. (c, float_sum (amounts_of ty c ts))) (categories_of ty ts)"

subsection \<open>Concrete inputs\<close>

text \<open>The four transactions of the example in section 8 of the specification.\<close>

definition example_transactions :: "transaction list" where
  "example_transactions =
     [\<lparr>ttype = ''income'', category = ''Salary'', amount = 1000\<rparr>,
      \<lparr>ttype = ''income'', category = ''Gifts'', amount = 200\<rparr>,
      \<lparr>ttype = ''expense'', category = ''Rent'', amount = 500\<rparr>,
      \<lparr>ttype = ''expense'', category = ''Groceries'', amount = 300\<rparr>]"

definition overspent :: "transaction list" where
  "overspent =
     [\<lparr>ttype = ''income'', category = ''Salary'', amount = 100\<rparr>,
      \<lparr>ttype = ''expense'', category = ''Rent'', amount = 500\<rparr>]"

definition example_state :: session_state where
  "example_state = \<lparr>transactions = example_transactions, editing_index = None\<rparr>"

definition editing_state :: session_state where
  "editing_state = \<lparr>transactions = example_transactions, editing_index = Some 1\<rparr>"

definition stale_edit_state :: session_state where
  "stale_edit_state = \<lparr>transactions = example_transactions, editing_index = Some 4\<rparr>"

definition zero_amount :: transaction where
  "zero_amount = \<lparr>ttype = ''income'', category = ''Salary'', amount = 0\<rparr>"

text \<open>
  The floats that Python reads from the decimal literals 0.1, 0.35, 0.21 and 0.05,
  that is the values of \<^verbatim>\<open>(0.1).as_integer_ratio()\<close> and so on.
\<close>

definition float_0_1 :: rat where
  "float_0_1 = 3602879701896397 / 36028797018963968"

definition float_0_35 :: rat where
  "float_0_35 = 3152519739159347 / 9007199254740992"

definition float_0_21 :: rat where
  "float_0_21 = 7566047373982433 / 36028797018963968"

definition float_0_05 :: rat where
  "float_0_05 = 3602879701896397 / 72057594037927936"

text \<open>Salary 0.1, Gifts 0.1, Salary 0.35: two income categories, interleaved.\<close>

definition interleaved_incomes :: "transaction list" where
  "interleaved_incomes =
     [\<lparr>ttype = ''income'', category = ''Salary'', amount = float_0_1\<rparr>,
      \<lparr>ttype = ''income'', category = ''Gifts'', amount = float_0_1\<rparr>,
      \<lparr>ttype = ''income'', category = ''Salary'', amount = float_0_35\<rparr>]"

text \<open>Salary 0.21 and Rent 0.05.\<close>

definition small_surplus :: "transaction list" where
  "small_surplus =
     [\<lparr>ttype = ''income'', category = ''Salary'', amount = float_0_21\<rparr>,
      \<lparr>ttype = ''expense'', category = ''Rent'', amount = float_0_05\<rparr>]"

text \<open>The user fills the form with Income, Salary, 1000.00 and presses save.\<close>

definition add_attempt :: form_input where
  "add_attempt =
     \<lparr>picked_type = Some ''Income'', picked_category = Some ''Salary'',
      entered_amount = Some 1000, clicked = Save\<rparr>"


section \<open>Auxiliary facts\<close>

subsection \<open>The dashboard in exact arithmetic\<close>



subsection \<open>The concrete inputs, evaluated\<close>

lemma example_valid: "valid_transactions example_transactions"
  by (simp add: example_transactions_def valid_transactions_def valid_transaction_def
      income_categories_def expense_categories_def)




subsection \<open>The handlers\<close>

lemma delete_button_ok:
  "i < length (transactions s) \<Longrightarrow>
   delete_button i s =
     (None, s\<lparr>transactions := take i (transactions s) @ drop (Suc i) (transactions s)\<rparr>)"
  by (simp add: delete_button_def pop_def)

lemma delete_button_fail:
  "\<not> i < length (transactions s) \<Longrightarrow> delete_button i s = (Some IndexError, s)"
  by (simp add: delete_button_def pop_def)

lemma delete_button_shifts:
  assumes "i < length (transactions s)"
  shows "Suc (length (transactions (snd (delete_button i s)))) = length (transactions s)"
    and "j < i \<Longrightarrow> transactions (snd (delete_button i s)) ! j = transactions s ! j"
    and "i \<le> j \<Longrightarrow> Suc j < length (transactions s) \<Longrightarrow>
         transactions (snd (delete_button i s)) ! j = transactions s ! Suc j"
  using assms by (auto simp: delete_button_ok nth_append min_def)

subsection \<open>The script\<close>

text \<open>
  With no edit in progress the amount widget is created with the default 0 and raises.
  Whatever a run stores has passed the amount widget.
\<close>

lemma form_defaults_no_edit: "editing_index s = None \<Longrightarrow> form_defaults s = Inr (0, 0, 0)"
  by (simp add: form_defaults_def)

lemma run_script_no_edit:
  "editing_index s = None \<Longrightarrow> run_script u s = (Some StreamlitAPIException, s)"
  by (simp add: run_script_def form_defaults_no_edit selectbox_def number_input_def
      income_categories_def expense_categories_def float_0_01_def)

lemma run_session_no_edit:
  "editing_index s = None \<Longrightarrow> run_session us s = s"
  by (induction us) (simp_all add: run_script_no_edit)




subsection \<open>Rounding\<close>

text \<open>Evaluating \<open>rnd\<close> on numerals.\<close>

lemma floor_numeral_div_rat:
  "\<lfloor>numeral a / numeral b :: rat\<rfloor> = numeral a div numeral b"
  by (metis floor_divide_of_int_eq of_int_numeral)

lemmas rnd_eval = rnd_def normalise_def round_half_even_def Let_def floor_numeral_div_rat

text \<open>
  The powers of two are closed under doubling and halving, and of two of them one is a
  multiple of the other.
\<close>

lemma pow2_1: "pow2 1"
  unfolding pow2_def by (rule exI[of _ 0]) simp

lemma pow2_pos: "pow2 s \<Longrightarrow> 0 < s"
  by (auto simp: pow2_def)

lemma pow2_double: "pow2 s \<Longrightarrow> pow2 (s * 2)"
proof -
  assume "pow2 s"
  then obtain j :: nat where "s = 2 ^ j \<or> s = 1 / 2 ^ j" by (auto simp: pow2_def)
  then show ?thesis
  proof
    assume "s = 2 ^ j"
    then have "s * 2 = 2 ^ Suc j" by simp
    then show ?thesis unfolding pow2_def by blast
  next
    assume s: "s = 1 / 2 ^ j"
    show ?thesis
    proof (cases j)
      case 0
      with s have "s * 2 = 2 ^ 1" by simp
      then show ?thesis unfolding pow2_def by blast
    next
      case (Suc i)
      with s have "s * 2 = 1 / 2 ^ i" by simp
      then show ?thesis unfolding pow2_def by blast
    qed
  qed
qed

lemma pow2_half: "pow2 s \<Longrightarrow> pow2 (s / 2)"
proof -
  assume "pow2 s"
  then obtain j :: nat where "s = 2 ^ j \<or> s = 1 / 2 ^ j" by (auto simp: pow2_def)
  then show ?thesis
  proof
    assume s: "s = 2 ^ j"
    show ?thesis
    proof (cases j)
      case 0
      with s have "s / 2 = 1 / 2 ^ 1" by simp
      then show ?thesis unfolding pow2_def by blast
    next
      case (Suc i)
      with s have "s / 2 = 2 ^ i" by simp
      then show ?thesis unfolding pow2_def by blast
    qed
  next
    assume "s = 1 / 2 ^ j"
    then have "s / 2 = 1 / 2 ^ Suc j" by simp
    then show ?thesis unfolding pow2_def by blast
  qed
qed

lemma pow2_nat_ratio:
  fixes a b :: nat
  shows "(\<exists>j::nat. (2::rat) ^ a = 2 ^ j * 2 ^ b) \<or> (\<exists>j::nat. (2::rat) ^ b = 2 ^ Suc j * 2 ^ a)"
proof (cases "b \<le> a")
  case True
  then have "(2::rat) ^ a = 2 ^ (a - b) * 2 ^ b" by (simp flip: power_add)
  then show ?thesis by blast
next
  case False
  then have "b = Suc (b - a - 1) + a" by simp
  then have "(2::rat) ^ b = 2 ^ Suc (b - a - 1) * 2 ^ a" by (metis power_add)
  then show ?thesis by blast
qed

lemma pow2_ratio:
  assumes "pow2 s" and "pow2 t"
  shows "(\<exists>j::nat. s = 2 ^ j * t) \<or> (\<exists>j::nat. t = 2 ^ Suc j * s)"
proof -
  obtain a :: nat where a: "s = 2 ^ a \<or> s = 1 / 2 ^ a" using assms(1) by (auto simp: pow2_def)
  obtain b :: nat where b: "t = 2 ^ b \<or> t = 1 / 2 ^ b" using assms(2) by (auto simp: pow2_def)
  consider "s = 2 ^ a" "t = 2 ^ b" | "s = 2 ^ a" "t = 1 / 2 ^ b"
    | "s = 1 / 2 ^ a" "t = 2 ^ b" | "s = 1 / 2 ^ a" "t = 1 / 2 ^ b"
    using a b by blast
  then show ?thesis
  proof cases
    case 1
    with pow2_nat_ratio[of a b] show ?thesis by simp
  next
    case 2
    then have "s = 2 ^ (a + b) * t" by (simp add: power_add)
    then show ?thesis by blast
  next
    case 3
    show ?thesis
    proof (cases "a + b")
      case 0
      with 3 have "s = 2 ^ 0 * t" by simp
      then show ?thesis by blast
    next
      case (Suc k)
      have "t = 2 ^ (a + b) * s" using 3 by (simp add: power_add)
      with Suc show ?thesis by auto
    qed
  next
    case 4
    from pow2_nat_ratio[of b a] show ?thesis
    proof
      assume "\<exists>j::nat. (2::rat) ^ b = 2 ^ j * 2 ^ a"
      then obtain j :: nat where e: "(2::rat) ^ b = 2 ^ j * 2 ^ a" by blast
      have "t = 1 / (2 ^ j * 2 ^ a)" using 4(2) e by simp
      then have "s = 2 ^ j * t" using 4(1) by simp
      then show ?thesis by blast
    next
      assume "\<exists>j::nat. (2::rat) ^ a = 2 ^ Suc j * 2 ^ b"
      then obtain j :: nat where e: "(2::rat) ^ a = 2 ^ Suc j * 2 ^ b" by blast
      have "s = 1 / (2 ^ Suc j * 2 ^ b)" using 4(1) e by simp
      then have "t = 2 ^ Suc j * s" using 4(2) by simp
      then show ?thesis by blast
    qed
  qed
qed

lemma scale_down_spec:
  "2 ^ 52 \<le> y \<Longrightarrow> pow2 s \<Longrightarrow> scale_down y s = (y', s') \<Longrightarrow>
   y' * s' = y * s \<and> 2 ^ 52 \<le> y' \<and> y' < 2 ^ 53 \<and> pow2 s'"
proof (induction y s rule: scale_down.induct)
  case (1 y s)
  show ?case
  proof (cases "2 ^ 53 \<le> y")
    case True
    then have "2 ^ 52 \<le> y / 2" by simp
    moreover have "pow2 (s * 2)" using "1.prems"(2) by (rule pow2_double)
    moreover have "scale_down (y / 2) (s * 2) = (y', s')" using "1.prems"(3) True by simp
    ultimately have "y' * s' = y / 2 * (s * 2) \<and> 2 ^ 52 \<le> y' \<and> y' < 2 ^ 53 \<and> pow2 s'"
      using "1.IH"[OF True] by blast
    then show ?thesis by simp
  next
    case False
    with "1.prems" show ?thesis by simp
  qed
qed

lemma scale_up_spec:
  "0 < y \<Longrightarrow> y < 2 ^ 53 \<Longrightarrow> pow2 s \<Longrightarrow> scale_up y s = (y', s') \<Longrightarrow>
   y' * s' = y * s \<and> 2 ^ 52 \<le> y' \<and> y' < 2 ^ 53 \<and> pow2 s'"
proof (induction y s rule: scale_up.induct)
  case (1 y s)
  show ?case
  proof (cases "y < 2 ^ 52")
    case True
    with "1.prems" have c: "0 < y \<and> y < 2 ^ 52" by simp
    have "0 < y * 2" "y * 2 < 2 ^ 53" using c by simp_all
    moreover have "pow2 (s / 2)" using "1.prems"(3) by (rule pow2_half)
    moreover have "scale_up (y * 2) (s / 2) = (y', s')" using "1.prems"(4) c by simp
    ultimately have "y' * s' = y * 2 * (s / 2) \<and> 2 ^ 52 \<le> y' \<and> y' < 2 ^ 53 \<and> pow2 s'"
      using "1.IH"[OF c] by blast
    then show ?thesis by simp
  next
    case False
    with "1.prems" show ?thesis by simp
  qed
qed


lemma normalise_spec:
  assumes "0 < a" and "normalise a = (y, s)"
  shows "y * s = a \<and> 2 ^ 52 \<le> y \<and> y < 2 ^ 53 \<and> pow2 s"
proof (cases "2 ^ 53 \<le> a")
  case True
  then have "2 ^ 52 \<le> a" by simp
  moreover have "scale_down a 1 = (y, s)" using assms(2) True by (simp add: normalise_def)
  ultimately show ?thesis using scale_down_spec[of a 1 y s] pow2_1 by simp
next
  case False
  then have "a < 2 ^ 53" by simp
  moreover have "scale_up a 1 = (y, s)" using assms(2) False by (simp add: normalise_def)
  ultimately show ?thesis using scale_up_spec[of a 1 y s] pow2_1 assms(1) by simp
qed

lemma round_half_even_of_int: "round_half_even (of_int n) = n"
  by (simp add: round_half_even_def)

lemma round_half_even_bounds:
  assumes "2 ^ 52 \<le> y" and "y < 2 ^ 53"
  shows "2 ^ 52 \<le> round_half_even y \<and> round_half_even y \<le> 2 ^ 53"
proof -
  have "of_int (2 ^ 52) \<le> y" using assms(1) by simp
  then have l: "(2 ^ 52 :: int) \<le> \<lfloor>y\<rfloor>" by (simp only: le_floor_iff)
  have "y < of_int (2 ^ 53)" using assms(2) by simp
  then have u: "\<lfloor>y\<rfloor> < (2 ^ 53 :: int)" by (simp only: floor_less_iff)
  show ?thesis using l u by (simp add: round_half_even_def Let_def)
qed

lemma rnd_nonzero:
  assumes "x \<noteq> 0" and "normalise \<bar>x\<bar> = (y, s)"
  shows "rnd x = sgn x * of_int (round_half_even y) * s"
  using assms by (simp add: rnd_def)

lemma rnd_sign:
  shows "0 < x \<Longrightarrow> 0 < rnd x" and "x < 0 \<Longrightarrow> rnd x < 0"
proof -
  have pos: "0 < of_int (round_half_even y) * s" if "x \<noteq> 0" "normalise \<bar>x\<bar> = (y, s)" for x y s
  proof -
    have sp: "y * s = \<bar>x\<bar> \<and> 2 ^ 52 \<le> y \<and> y < 2 ^ 53 \<and> pow2 s"
      using normalise_spec[of "\<bar>x\<bar>" y s] that by simp
    then have "(0::int) < round_half_even y" using round_half_even_bounds[of y] by simp
    then have "(0::rat) < of_int (round_half_even y)" by simp
    moreover have "0 < s" using sp pow2_pos by blast
    ultimately show ?thesis by simp
  qed
  { assume x: "0 < x"
    obtain y s where n: "normalise \<bar>x\<bar> = (y, s)" by (cases "normalise \<bar>x\<bar>")
    from x have "x \<noteq> 0" by simp
    from pos[OF this n] rnd_nonzero[OF this n] x show "0 < rnd x" by (simp add: mult.assoc) }
  { assume x: "x < 0"
    obtain y s where n: "normalise \<bar>x\<bar> = (y, s)" by (cases "normalise \<bar>x\<bar>")
    from x have "x \<noteq> 0" by simp
    from pos[OF this n] rnd_nonzero[OF this n] x show "rnd x < 0" by (simp add: mult.assoc) }
qed

lemma normalised_integral:
  assumes "pow2 s" and "pow2 t" and "y * t = of_int n * s"
    and "2 ^ 52 \<le> n" and "n \<le> 2 ^ 53" and "2 ^ 52 \<le> y" and "y < 2 ^ 53"
  shows "\<exists>m::int. y = of_int m"
proof -
  have sp: "0 < s" and tp: "0 < t" using assms(1,2) pow2_pos by blast+
  from pow2_ratio[OF assms(1,2)] show ?thesis
  proof
    assume "\<exists>j::nat. s = 2 ^ j * t"
    then obtain j :: nat where "s = 2 ^ j * t" by blast
    with assms(3) tp have "y = of_int n * 2 ^ j" by simp
    then have "y = of_int (n * 2 ^ j)" by simp
    then show ?thesis by blast
  next
    assume "\<exists>j::nat. t = 2 ^ Suc j * s"
    then obtain j :: nat where "t = 2 ^ Suc j * s" by blast
    with assms(3) sp have e: "y * 2 ^ Suc j = of_int n" by simp
    have "(2::rat) ^ 52 * 2 ^ Suc j \<le> y * 2 ^ Suc j" using assms(6) by simp
    also have "\<dots> \<le> 2 ^ 53" using e assms(5) by (metis of_int_le_iff of_int_numeral of_int_power)
    finally have "(2::rat) ^ Suc j \<le> 2" by simp
    have "j = 0"
    proof (rule ccontr)
      assume "j \<noteq> 0"
      then obtain i where i: "j = Suc i" by (cases j) simp_all
      have "(1::rat) \<le> 2 ^ i" by simp
      with \<open>(2::rat) ^ Suc j \<le> 2\<close> i show False by simp
    qed
    with e have "y * 2 = of_int n" by simp
    moreover have "(2::rat) ^ 53 \<le> y * 2" using assms(6) by simp
    ultimately have "(2::rat) ^ 53 \<le> of_int n" by simp
    then have "2 ^ 53 \<le> n" by (metis of_int_le_iff of_int_numeral of_int_power)
    with assms(5) have "n = 2 ^ 53" by simp
    with \<open>y * 2 = of_int n\<close> have "y = of_int (2 ^ 52)" by simp
    then show ?thesis by blast
  qed
qed

lemma rnd_idem: "rnd (rnd x) = rnd x"
proof (cases "x = 0")
  case True
  then show ?thesis by (simp add: rnd_def)
next
  case False
  obtain y s where n: "normalise \<bar>x\<bar> = (y, s)" by (cases "normalise \<bar>x\<bar>")
  have sp: "y * s = \<bar>x\<bar>" "2 ^ 52 \<le> y" "y < 2 ^ 53" "pow2 s"
    using normalise_spec[of "\<bar>x\<bar>" y s] False n by simp_all
  define k where "k = round_half_even y"
  have kb: "2 ^ 52 \<le> k" "k \<le> 2 ^ 53" using round_half_even_bounds[OF sp(2,3)] by (simp_all add: k_def)
  have r: "rnd x = sgn x * of_int k * s" using rnd_nonzero[OF False n] by (simp add: k_def)
  have kpos: "(0::rat) < of_int k" using kb(1) by simp
  have spos: "0 < s" using sp(4) by (rule pow2_pos)
  have ks: "0 < of_int k * s" using kpos spos by simp
  have r': "rnd x = sgn x * (of_int k * s)" using r by (simp add: mult.assoc)
  have kn: "k \<noteq> 0" "s \<noteq> 0" using kb(1) spos by auto
  have ne: "rnd x \<noteq> 0" using r' False kn by (simp add: sgn_eq_0_iff)
  have "\<bar>rnd x\<bar> = \<bar>sgn x\<bar> * \<bar>of_int k * s\<bar>" by (simp only: r' abs_mult)
  then have ab: "\<bar>rnd x\<bar> = of_int k * s" using False ks by simp
  have "sgn (rnd x) = sgn (sgn x) * sgn (of_int k * s)" by (simp only: r' sgn_mult)
  then have sg: "sgn (rnd x) = sgn x" using ks by simp
  obtain y2 t where n2: "normalise \<bar>rnd x\<bar> = (y2, t)" by (cases "normalise \<bar>rnd x\<bar>")
  have sp2: "y2 * t = of_int k * s" "2 ^ 52 \<le> y2" "y2 < 2 ^ 53" "pow2 t"
    using normalise_spec[of "\<bar>rnd x\<bar>" y2 t] ne n2 ab by simp_all
  from normalised_integral[OF sp(4) sp2(4) sp2(1) kb sp2(2,3)]
  obtain m :: int where m: "y2 = of_int m" by blast
  have "rnd (rnd x) = sgn (rnd x) * of_int (round_half_even y2) * t"
    using rnd_nonzero[OF ne n2] .
  also have "\<dots> = sgn x * (y2 * t)" by (simp add: sg m round_half_even_of_int)
  also have "\<dots> = rnd x" by (simp add: sp2(1) r mult.assoc)
  finally show ?thesis .
qed


subsection \<open>The grouping loop in floating point\<close>

lemma categories_of_snoc:
  "categories_of ty (ts @ [t]) =
     (if ttype t = ty \<and> category t \<notin> set (categories_of ty ts)
      then categories_of ty ts @ [category t] else categories_of ty ts)"
  by (simp add: categories_of_def)

lemma set_categories_of:
  "set (categories_of ty ts) = {c. amounts_of ty c ts \<noteq> []}"
  by (auto simp: categories_of_def amounts_of_def filter_empty_conv)

lemma distinct_categories_of: "distinct (categories_of ty ts)"
  by (simp add: categories_of_def)

lemma float_sum_snoc: "float_sum (xs @ [x]) = fadd (float_sum xs) x"
  by (simp add: float_sum_def)

lemma update_entries:
  "distinct cs \<Longrightarrow>
   AList.update k v (map (\<lambda>c. (c, f c)) cs) =
     (if k \<in> set cs then map (\<lambda>c. (c, if c = k then v else f c)) cs
      else map (\<lambda>c. (c, f c)) cs @ [(k, v)])"
  by (induction cs) auto

lemma dict_get_entries_of:
  "dict_get (entries_of ty ts) c 0 = float_sum (amounts_of ty c ts)"
proof (cases "c \<in> set (categories_of ty ts)")
  case True
  then have "map_of (entries_of ty ts) c = Some (float_sum (amounts_of ty c ts))"
    unfolding entries_of_def by (induction "categories_of ty ts") (auto simp: map_of_map_restrict)
  then show ?thesis by (simp add: dict_get_def)
next
  case False
  then have "map_of (entries_of ty ts) c = None"
    by (simp add: entries_of_def map_of_eq_None_iff image_image)
  moreover from False have "amounts_of ty c ts = []" by (simp add: set_categories_of)
  ultimately show ?thesis by (simp add: dict_get_def float_sum_def)
qed

lemma entries_of_snoc:
  "entries_of ty (ts @ [t]) =
     (if ttype t = ty
      then AList.update (category t)
             (fadd (dict_get (entries_of ty ts) (category t) 0) (amount t)) (entries_of ty ts)
      else entries_of ty ts)"
proof (cases "ttype t = ty")
  case False
  then show ?thesis by (simp add: entries_of_def categories_of_def amounts_of_def)
next
  case True
  have am: "amounts_of ty c (ts @ [t]) =
      (if c = category t then amounts_of ty c ts @ [amount t] else amounts_of ty c ts)" for c
    using True by (auto simp: amounts_of_def)
  show ?thesis
    unfolding dict_get_entries_of
    using True
    by (auto simp: entries_of_def categories_of_snoc am float_sum_snoc update_entries
        distinct_categories_of)
qed

lemma group_by_cat_f64_append:
  "group_by_cat_f64 (ts @ us) acc = group_by_cat_f64 us (group_by_cat_f64 ts acc)"
  by (induction ts acc rule: group_by_cat_f64.induct) simp_all

lemma group_by_cat_f64_entries:
  "valid_transactions ts \<Longrightarrow>
   group_by_cat_f64 ts ([], []) = (entries_of ''income'' ts, entries_of ''expense'' ts)"
proof (induction ts rule: rev_induct)
  case Nil
  show ?case by (simp add: entries_of_def categories_of_def)
next
  case (snoc t ts)
  then have v: "valid_transactions ts" and t: "valid_transaction t"
    by (simp_all add: valid_transactions_def)
  from t have "ttype t = ''income'' \<or> ttype t = ''expense''"
    by (auto simp: valid_transaction_def)
  then show ?case
    by (auto simp: group_by_cat_f64_append snoc.IH[OF v] entries_of_snoc)
qed

subsection \<open>Sums of floats are floats\<close>

text \<open>The results of the float operations are fixed points of the rounding.\<close>

lemma rnd_zero: "rnd 0 = 0"
  by (simp add: rnd_def)

lemma fadd_fixed: "rnd (fadd x y) = fadd x y"
  by (simp add: fadd_def rnd_idem)

lemma fsub_sign:
  shows "x \<le> y \<Longrightarrow> fsub x y \<le> 0" and "y \<le> x \<Longrightarrow> 0 \<le> fsub x y"
    and "y < x \<Longrightarrow> 0 < fsub x y"
proof -
  show "fsub x y \<le> 0" if "x \<le> y"
  proof (cases "x = y")
    case True
    then show ?thesis by (simp add: fsub_def rnd_zero)
  next
    case False
    with that have "x - y < 0" by simp
    then have "rnd (x - y) < 0" by (rule rnd_sign(2))
    then show ?thesis by (simp add: fsub_def)
  qed
  show p: "0 < fsub x y" if "y < x"
  proof -
    from that have "0 < x - y" by simp
    then have "0 < rnd (x - y)" by (rule rnd_sign(1))
    then show ?thesis by (simp add: fsub_def)
  qed
  show "0 \<le> fsub x y" if "y \<le> x"
  proof (cases "x = y")
    case True
    then show ?thesis by (simp add: fsub_def rnd_zero)
  next
    case False
    with that have "y < x" by simp
    from p[OF this] show ?thesis by simp
  qed
qed

lemma float_sum_fixed: "rnd (float_sum xs) = float_sum xs"
  by (cases xs rule: rev_cases) (simp_all add: float_sum_def fadd_fixed rnd_zero)

lemma neumaier_fixed:
  "rnd f = f \<Longrightarrow> rnd (fst (neumaier (f, c) xs)) = fst (neumaier (f, c) xs)"
  by (induction xs arbitrary: f c) (simp_all add: Let_def fadd_fixed)

lemma py_sum_fixed: "rnd (py_sum v xs) = py_sum v xs"
proof (cases v)
  case Upto_3_11
  then show ?thesis using float_sum_fixed[of xs] by (simp add: float_sum_def)
next
  case From_3_12
  show ?thesis
  proof (cases xs)
    case Nil
    with From_3_12 show ?thesis by (simp add: rnd_zero)
  next
    case (Cons x ys)
    obtain f c where n: "neumaier (fadd 0 x, 0) ys = (f, c)"
      by (cases "neumaier (fadd 0 x, 0) ys")
    have "rnd f = f" using neumaier_fixed[of "fadd 0 x" 0 ys] n by (simp add: fadd_fixed)
    with From_3_12 Cons n show ?thesis by (simp add: fadd_fixed)
  qed
qed

subsection \<open>The dashboard in floating point\<close>

text \<open>The fields of the report, the allocation pair, and the entries as a map.\<close>

lemma plot_dashboard_f64_fields:
  "income_by_cat (plot_dashboard_f64 v ts) = fst (group_by_cat_f64 ts ([], []))"
  "expense_by_cat (plot_dashboard_f64 v ts) = snd (group_by_cat_f64 ts ([], []))"
  "total_income (plot_dashboard_f64 v ts) =
     py_sum v (map snd (fst (group_by_cat_f64 ts ([], []))))"
  "total_expense (plot_dashboard_f64 v ts) =
     py_sum v (map snd (snd (group_by_cat_f64 ts ([], []))))"
  "balance (plot_dashboard_f64 v ts) =
     fsub (total_income (plot_dashboard_f64 v ts)) (total_expense (plot_dashboard_f64 v ts))"
  "allocation (plot_dashboard_f64 v ts) =
     allocation_chart (total_income (plot_dashboard_f64 v ts))
       (total_expense (plot_dashboard_f64 v ts)) (balance (plot_dashboard_f64 v ts))"
  by (simp_all add: plot_dashboard_f64_def dict_values_def Let_def split: prod.split)

lemma total_income_f64_fixed:
  "rnd (total_income (plot_dashboard_f64 v ts)) = total_income (plot_dashboard_f64 v ts)"
  by (simp only: plot_dashboard_f64_fields(3) py_sum_fixed)

lemma allocation_chart_fsub:
  "allocation_chart ti te (fsub ti te) =
     (if 0 < ti then Some (min te ti, max 0 (fsub ti te)) else None)"
proof (cases "0 < ti")
  case False
  then show ?thesis by (simp add: allocation_chart_def)
next
  case True
  have "0 < min te ti \<or> 0 < max 0 (fsub ti te)"
  proof (cases "0 < te")
    case True
    with \<open>0 < ti\<close> show ?thesis by simp
  next
    case False
    with \<open>0 < ti\<close> have "te < ti" by simp
    from fsub_sign(3)[OF this] show ?thesis by simp
  qed
  with True show ?thesis by (simp add: allocation_chart_def Let_def)
qed

text \<open>
  The two cases of the allocation pair are the same with rounding as without; the
  savings of the second case are the float difference.
\<close>

lemma allocation_cases_f64:
  "(allocation (plot_dashboard_f64 v ts) \<noteq> None \<longleftrightarrow>
      0 < total_income (plot_dashboard_f64 v ts)) \<and>
   (\<forall>d s. allocation (plot_dashboard_f64 v ts) = Some (d, s) \<longrightarrow>
      (total_income (plot_dashboard_f64 v ts) < total_expense (plot_dashboard_f64 v ts) \<longrightarrow>
         d = total_income (plot_dashboard_f64 v ts) \<and> s = 0) \<and>
      (total_expense (plot_dashboard_f64 v ts) \<le> total_income (plot_dashboard_f64 v ts) \<longrightarrow>
         d = total_expense (plot_dashboard_f64 v ts) \<and>
         s = fsub (total_income (plot_dashboard_f64 v ts))
                  (total_expense (plot_dashboard_f64 v ts))))"
proof -
  define ti where "ti = total_income (plot_dashboard_f64 v ts)"
  define te where "te = total_expense (plot_dashboard_f64 v ts)"
  have a: "allocation (plot_dashboard_f64 v ts) =
      (if 0 < ti then Some (min te ti, max 0 (fsub ti te)) else None)"
    unfolding plot_dashboard_f64_fields(6) plot_dashboard_f64_fields(5) ti_def te_def
    by (rule allocation_chart_fsub)
  have lt: "max 0 (fsub ti te) = 0" if "ti < te"
    using fsub_sign(1)[of ti te] that by simp
  have ge: "max 0 (fsub ti te) = fsub ti te" if "te \<le> ti"
    using fsub_sign(2)[OF that] by simp
  show ?thesis
    unfolding ti_def[symmetric] te_def[symmetric] a
    using lt ge by (auto simp: min_def)
qed

lemma map_of_entries_of:
  "map_of (entries_of ty ts) c =
     (if amounts_of ty c ts = [] then None else Some (float_sum (amounts_of ty c ts)))"
proof (cases "c \<in> set (categories_of ty ts)")
  case True
  then have "map_of (entries_of ty ts) c = Some (float_sum (amounts_of ty c ts))"
    unfolding entries_of_def by (induction "categories_of ty ts") (auto simp: map_of_map_restrict)
  with True show ?thesis by (simp add: set_categories_of)
next
  case False
  then have "map_of (entries_of ty ts) c = None"
    by (simp add: entries_of_def map_of_eq_None_iff image_image)
  with False show ?thesis by (simp add: set_categories_of)
qed

lemma keys_entries_of: "map fst (entries_of ty ts) = categories_of ty ts"
  by (simp add: entries_of_def comp_def)

lemma plot_dashboard_f64_empty: "plot_dashboard_f64 v [] = plot_dashboard []"
  by (cases v)
    (simp_all add: plot_dashboard_f64_def plot_dashboard_def dict_values_def fsub_def rnd_zero)

subsection \<open>The concrete floats, evaluated\<close>

lemma floats_fixed:
  "rnd float_0_1 = float_0_1" "rnd float_0_35 = float_0_35"
  "rnd float_0_21 = float_0_21" "rnd float_0_05 = float_0_05"
  by (simp_all add: float_0_1_def float_0_35_def float_0_21_def float_0_05_def rnd_eval)

lemma interleaved_valid: "valid_transactions interleaved_incomes"
  by (simp add: interleaved_incomes_def valid_transactions_def valid_transaction_def
      income_categories_def float_0_1_def float_0_35_def)

lemma small_surplus_valid: "valid_transactions small_surplus"
  by (simp add: small_surplus_def valid_transactions_def valid_transaction_def
      income_categories_def expense_categories_def float_0_21_def float_0_05_def)

lemma fadd_small_surplus:
  "fadd float_0_05 (2882303761517117 / 18014398509481984) = 236438980436951 / 1125899906842624"
  by (simp add: float_0_05_def fadd_def rnd_eval)

lemma group_by_cat_f64_interleaved:
  "group_by_cat_f64 interleaved_incomes ([], []) =
     ([(''Salary'', 2026619832316723 / 4503599627370496),
       (''Gifts'', 3602879701896397 / 36028797018963968)], [])"
  by (simp add: interleaved_incomes_def dict_get_def float_0_1_def float_0_35_def fadd_def
      rnd_eval)

lemma total_income_interleaved_3_11:
  "total_income (plot_dashboard_f64 Upto_3_11 interleaved_incomes) =
     4953959590107545 / 9007199254740992"
  unfolding plot_dashboard_f64_fields group_by_cat_f64_interleaved
  by (simp add: fadd_def rnd_eval)

lemma total_income_interleaved_3_12:
  "total_income (plot_dashboard_f64 From_3_12 interleaved_incomes) =
     4953959590107545 / 9007199254740992"
  unfolding plot_dashboard_f64_fields group_by_cat_f64_interleaved
  by (simp add: fadd_def fsub_def rnd_eval)

lemma amounts_interleaved:
  "amounts_of_type ''income'' interleaved_incomes = [float_0_1, float_0_1, float_0_35]"
  by (simp add: amounts_of_type_def interleaved_incomes_def)

lemma float_sum_interleaved:
  "float_sum [float_0_1, float_0_1, float_0_35] = 2476979795053773 / 4503599627370496"
  by (simp add: float_sum_def float_0_1_def float_0_35_def fadd_def rnd_eval)

lemma py_sum_interleaved:
  "py_sum From_3_12 [float_0_1, float_0_1, float_0_35] = 2476979795053773 / 4503599627370496"
  by (simp add: float_0_1_def float_0_35_def fadd_def fsub_def rnd_eval)

lemma exact_sum_interleaved:
  "sum_list [float_0_1, float_0_1, float_0_35] = 9907919180215091 / 18014398509481984"
  "rnd (9907919180215091 / 18014398509481984) = 2476979795053773 / 4503599627370496"
  by (simp_all add: float_0_1_def float_0_35_def rnd_eval)

lemma group_by_cat_f64_small_surplus:
  "group_by_cat_f64 small_surplus ([], []) =
     ([(''Salary'', float_0_21)], [(''Rent'', float_0_05)])"
  by (simp add: small_surplus_def dict_get_def fadd_def floats_fixed)

lemma plot_dashboard_f64_small_surplus:
  "total_income (plot_dashboard_f64 v small_surplus) = float_0_21"
  "total_expense (plot_dashboard_f64 v small_surplus) = float_0_05"
  unfolding plot_dashboard_f64_fields group_by_cat_f64_small_surplus
  by (cases v, simp_all add: fadd_def floats_fixed)+

lemma fsub_small_surplus:
  "fsub float_0_21 float_0_05 = 2882303761517117 / 18014398509481984"
  by (simp add: float_0_21_def float_0_05_def fsub_def rnd_eval)

lemma allocation_small_surplus:
  "allocation (plot_dashboard_f64 v small_surplus) =
     Some (float_0_05, 2882303761517117 / 18014398509481984)"
proof -
  have "(0::rat) < float_0_21" "float_0_05 < float_0_21"
    by (simp_all add: float_0_21_def float_0_05_def)
  moreover have "allocation (plot_dashboard_f64 v small_surplus) =
      (if 0 < float_0_21
       then Some (min float_0_05 float_0_21, max 0 (fsub float_0_21 float_0_05)) else None)"
    unfolding plot_dashboard_f64_fields(6) plot_dashboard_f64_fields(5)
      plot_dashboard_f64_small_surplus
    by (rule allocation_chart_fsub)
  ultimately show ?thesis by (simp add: fsub_small_surplus)
qed

lemma group_by_cat_f64_example:
  "group_by_cat_f64 example_transactions ([], []) =
     ([(''Salary'', 1000), (''Gifts'', 200)], [(''Rent'', 500), (''Groceries'', 300)])"
  by (simp add: example_transactions_def dict_get_def fadd_def rnd_eval)

lemma plot_dashboard_f64_example:
  "total_income (plot_dashboard_f64 v example_transactions) = 1200"
  "total_expense (plot_dashboard_f64 v example_transactions) = 800"
  unfolding plot_dashboard_f64_fields group_by_cat_f64_example
  by (cases v, simp_all add: fadd_def fsub_def rnd_eval)+

lemma fsub_example: "fsub 1200 800 = 400"
  by (simp add: fsub_def rnd_eval)

lemma entries_of_example:
  "entries_of ''income'' example_transactions = [(''Salary'', 1000), (''Gifts'', 200)]"
  "entries_of ''expense'' example_transactions = [(''Rent'', 500), (''Groceries'', 300)]"
  using group_by_cat_f64_entries[OF example_valid] by (simp_all add: group_by_cat_f64_example)

lemma group_by_cat_f64_overspent:
  "group_by_cat_f64 overspent ([], []) = ([(''Salary'', 100)], [(''Rent'', 500)])"
  by (simp add: overspent_def dict_get_def fadd_def rnd_eval)

lemma plot_dashboard_f64_overspent:
  "total_income (plot_dashboard_f64 v overspent) = 100"
  "total_expense (plot_dashboard_f64 v overspent) = 500"
  unfolding plot_dashboard_f64_fields group_by_cat_f64_overspent
  by (cases v, simp_all add: fadd_def fsub_def rnd_eval)+

section \<open>Properties\<close>

subsection \<open>The dashboard\<close>

text \<open>
  C1, as stated, fails on the totals. The per-category sums are as the claim says, but
  \<^verbatim>\<open>total_income\<close> is the sum of the per-category sums (line 30), not the sum of the
  income amounts, and float addition is not associative. On Salary 0.1, Gifts 0.1,
  Salary 0.35, three valid transactions, the Salary entry is 0.1 + 0.35 =
  0.44999999999999996 and \<^verbatim>\<open>total_income\<close> is 0.5499999999999999 under both versions of
  \<^verbatim>\<open>sum\<close>, while the income amounts 0.1, 0.1, 0.35 add up to 0.55: added from left to
  right, added by the \<^verbatim>\<open>sum\<close> of CPython 3.12, and added exactly and rounded once.
\<close>

theorem total_income_counterexample:
  "valid_transactions interleaved_incomes \<and>
   amounts_of_type ''income'' interleaved_incomes = [float_0_1, float_0_1, float_0_35] \<and>
   fst (group_by_cat_f64 interleaved_incomes ([], [])) =
     [(''Salary'', 2026619832316723 / 4503599627370496),
      (''Gifts'', 3602879701896397 / 36028797018963968)] \<and>
   total_income (plot_dashboard_f64 Upto_3_11 interleaved_incomes) =
     4953959590107545 / 9007199254740992 \<and>
   total_income (plot_dashboard_f64 From_3_12 interleaved_incomes) =
     4953959590107545 / 9007199254740992 \<and>
   float_sum (amounts_of_type ''income'' interleaved_incomes) =
     2476979795053773 / 4503599627370496 \<and>
   py_sum From_3_12 (amounts_of_type ''income'' interleaved_incomes) =
     2476979795053773 / 4503599627370496 \<and>
   sum_list (amounts_of_type ''income'' interleaved_incomes) =
     9907919180215091 / 18014398509481984 \<and>
   rnd (sum_list (amounts_of_type ''income'' interleaved_incomes)) =
     2476979795053773 / 4503599627370496 \<and>
   total_income (plot_dashboard_f64 Upto_3_11 interleaved_incomes)
     \<noteq> float_sum (amounts_of_type ''income'' interleaved_incomes) \<and>
   total_income (plot_dashboard_f64 From_3_12 interleaved_incomes)
     \<noteq> py_sum From_3_12 (amounts_of_type ''income'' interleaved_incomes)"
  unfolding total_income_interleaved_3_11 total_income_interleaved_3_12 amounts_interleaved
    float_sum_interleaved py_sum_interleaved exact_sum_interleaved group_by_cat_f64_interleaved
  by (simp add: interleaved_valid)

text \<open>
  C1, amended. For every list of valid transactions and either version of \<^verbatim>\<open>sum\<close>,
  \<^verbatim>\<open>plot_dashboard\<close> groups by type and then by category: each of the two dicts has one
  entry for each category that occurs with that type, in the order of first occurrence
  and so with distinct keys, holding the float sum, from left to right, of the amounts of
  that type and category, and no entry for a category with no such transaction. The
  total income is \<^verbatim>\<open>sum\<close> of the income entries, the total expense \<^verbatim>\<open>sum\<close> of the
  expense entries, and the balance is the float difference of the two totals.
\<close>

theorem plot_dashboard_f64_groups_and_totals:
  assumes "valid_transactions ts"
  shows "income_by_cat (plot_dashboard_f64 v ts) = entries_of ''income'' ts \<and>
         expense_by_cat (plot_dashboard_f64 v ts) = entries_of ''expense'' ts \<and>
         distinct (map fst (income_by_cat (plot_dashboard_f64 v ts))) \<and>
         distinct (map fst (expense_by_cat (plot_dashboard_f64 v ts))) \<and>
         (\<forall>c. map_of (income_by_cat (plot_dashboard_f64 v ts)) c =
               (if amounts_of ''income'' c ts = [] then None
                else Some (float_sum (amounts_of ''income'' c ts)))) \<and>
         (\<forall>c. map_of (expense_by_cat (plot_dashboard_f64 v ts)) c =
               (if amounts_of ''expense'' c ts = [] then None
                else Some (float_sum (amounts_of ''expense'' c ts)))) \<and>
         total_income (plot_dashboard_f64 v ts) =
           py_sum v (map (\<lambda>c. float_sum (amounts_of ''income'' c ts))
                      (categories_of ''income'' ts)) \<and>
         total_expense (plot_dashboard_f64 v ts) =
           py_sum v (map (\<lambda>c. float_sum (amounts_of ''expense'' c ts))
                      (categories_of ''expense'' ts)) \<and>
         balance (plot_dashboard_f64 v ts) =
           fsub (total_income (plot_dashboard_f64 v ts)) (total_expense (plot_dashboard_f64 v ts))"
proof -
  note g = group_by_cat_f64_entries[OF assms]
  have i: "income_by_cat (plot_dashboard_f64 v ts) = entries_of ''income'' ts"
    and e: "expense_by_cat (plot_dashboard_f64 v ts) = entries_of ''expense'' ts"
    by (simp_all add: plot_dashboard_f64_fields g)
  have vals: "map snd (entries_of ty ts) =
      map (\<lambda>c. float_sum (amounts_of ty c ts)) (categories_of ty ts)" for ty
    by (simp add: entries_of_def comp_def)
  have ti: "total_income (plot_dashboard_f64 v ts) =
      py_sum v (map (\<lambda>c. float_sum (amounts_of ''income'' c ts)) (categories_of ''income'' ts))"
    by (simp add: plot_dashboard_f64_fields(3) g vals)
  have te: "total_expense (plot_dashboard_f64 v ts) =
      py_sum v (map (\<lambda>c. float_sum (amounts_of ''expense'' c ts)) (categories_of ''expense'' ts))"
    by (simp add: plot_dashboard_f64_fields(4) g vals)
  have d: "distinct (map fst (entries_of ty ts))" for ty
    by (simp add: keys_entries_of distinct_categories_of)
  show ?thesis
    unfolding i e
    using ti te d plot_dashboard_f64_fields(5)[of v ts]
    by (simp add: map_of_entries_of)
qed

theorem plot_dashboard_f64_groups_and_totals_witness:
  "valid_transactions example_transactions \<and>
   income_by_cat (plot_dashboard_f64 Upto_3_11 example_transactions) =
     [(''Salary'', 1000), (''Gifts'', 200)] \<and>
   expense_by_cat (plot_dashboard_f64 Upto_3_11 example_transactions) =
     [(''Rent'', 500), (''Groceries'', 300)] \<and>
   total_income (plot_dashboard_f64 Upto_3_11 example_transactions) = 1200 \<and>
   total_expense (plot_dashboard_f64 Upto_3_11 example_transactions) = 800 \<and>
   balance (plot_dashboard_f64 Upto_3_11 example_transactions) = 400 \<and>
   valid_transactions interleaved_incomes \<and>
   income_by_cat (plot_dashboard_f64 From_3_12 interleaved_incomes) =
     entries_of ''income'' interleaved_incomes \<and>
   expense_by_cat (plot_dashboard_f64 From_3_12 interleaved_incomes) = []"
  using plot_dashboard_f64_groups_and_totals [OF example_valid, of Upto_3_11]
    plot_dashboard_f64_groups_and_totals [OF interleaved_valid, of From_3_12]
  by (simp add: example_valid interleaved_valid entries_of_example plot_dashboard_f64_example
      fsub_example plot_dashboard_f64_fields(2) group_by_cat_f64_interleaved)



text \<open>
  C9, as stated, fails. On Salary 0.21 and Rent 0.05, two valid transactions, the
  allocation pair is \<^verbatim>\<open>display_expense\<close> = 0.05 and \<^verbatim>\<open>savings\<close> = 0.21 - 0.05 =
  0.15999999999999998, and their float sum is 0.20999999999999996, not the total income
  0.21.
\<close>

theorem allocation_sum_counterexample:
  "valid_transactions small_surplus \<and>
   total_income (plot_dashboard_f64 Upto_3_11 small_surplus) = float_0_21 \<and>
   total_expense (plot_dashboard_f64 Upto_3_11 small_surplus) = float_0_05 \<and>
   allocation (plot_dashboard_f64 Upto_3_11 small_surplus) =
     Some (float_0_05, 2882303761517117 / 18014398509481984) \<and>
   fadd float_0_05 (2882303761517117 / 18014398509481984) =
     236438980436951 / 1125899906842624 \<and>
   fadd float_0_05 (2882303761517117 / 18014398509481984)
     \<noteq> total_income (plot_dashboard_f64 Upto_3_11 small_surplus) \<and>
   total_income (plot_dashboard_f64 From_3_12 small_surplus) = float_0_21 \<and>
   allocation (plot_dashboard_f64 From_3_12 small_surplus) =
     Some (float_0_05, 2882303761517117 / 18014398509481984)"
  unfolding plot_dashboard_f64_small_surplus allocation_small_surplus fadd_small_surplus
  by (simp add: small_surplus_valid float_0_21_def)

text \<open>
  C9, amended. For every list of transactions and either version of \<^verbatim>\<open>sum\<close>,
  \<^verbatim>\<open>plot_dashboard\<close> computes the allocation pair exactly when the total income is
  positive; the displayed expense is then the smaller of total expense and total income
  and the savings the larger of 0 and the float difference total income minus total
  expense. The two add up to the total income whenever the total expense is at least the
  total income (the savings are 0 then), and whenever that difference is exact.
\<close>

theorem allocation_f64:
  "allocation (plot_dashboard_f64 v ts) =
     (if 0 < total_income (plot_dashboard_f64 v ts)
      then Some (min (total_expense (plot_dashboard_f64 v ts))
                     (total_income (plot_dashboard_f64 v ts)),
                 max 0 (fsub (total_income (plot_dashboard_f64 v ts))
                             (total_expense (plot_dashboard_f64 v ts))))
      else None) \<and>
   (total_income (plot_dashboard_f64 v ts) \<le> total_expense (plot_dashboard_f64 v ts) \<or>
    fsub (total_income (plot_dashboard_f64 v ts)) (total_expense (plot_dashboard_f64 v ts)) =
      total_income (plot_dashboard_f64 v ts) - total_expense (plot_dashboard_f64 v ts) \<longrightarrow>
    fadd (min (total_expense (plot_dashboard_f64 v ts)) (total_income (plot_dashboard_f64 v ts)))
         (max 0 (fsub (total_income (plot_dashboard_f64 v ts))
                      (total_expense (plot_dashboard_f64 v ts)))) =
      total_income (plot_dashboard_f64 v ts))"
proof -
  define ti where "ti = total_income (plot_dashboard_f64 v ts)"
  define te where "te = total_expense (plot_dashboard_f64 v ts)"
  have fx: "rnd ti = ti" unfolding ti_def by (rule total_income_f64_fixed)
  have a: "allocation (plot_dashboard_f64 v ts) =
      (if 0 < ti then Some (min te ti, max 0 (fsub ti te)) else None)"
    unfolding plot_dashboard_f64_fields(6) plot_dashboard_f64_fields(5) ti_def te_def
    by (rule allocation_chart_fsub)
  have b: "fadd (min te ti) (max 0 (fsub ti te)) = ti" if "ti \<le> te \<or> fsub ti te = ti - te"
  proof (cases "ti \<le> te")
    case True
    from fsub_sign(1)[OF this] True show ?thesis by (simp add: fadd_def fx max_def min_def)
  next
    case False
    with that have ex: "fsub ti te = ti - te" by simp
    from False have "te < ti" by simp
    then show ?thesis by (simp add: ex fadd_def fx max_def min_def)
  qed
  from a b show ?thesis unfolding ti_def te_def by blast
qed

theorem allocation_f64_witness:
  "total_income (plot_dashboard_f64 Upto_3_11 overspent)
     \<le> total_expense (plot_dashboard_f64 Upto_3_11 overspent) \<and>
   allocation (plot_dashboard_f64 Upto_3_11 overspent) = Some (100, 0) \<and>
   fadd 100 0 = total_income (plot_dashboard_f64 Upto_3_11 overspent) \<and>
   fsub (total_income (plot_dashboard_f64 From_3_12 example_transactions))
        (total_expense (plot_dashboard_f64 From_3_12 example_transactions)) =
     total_income (plot_dashboard_f64 From_3_12 example_transactions)
       - total_expense (plot_dashboard_f64 From_3_12 example_transactions) \<and>
   allocation (plot_dashboard_f64 From_3_12 example_transactions) = Some (800, 400) \<and>
   fadd 800 400 = total_income (plot_dashboard_f64 From_3_12 example_transactions)"
  using allocation_f64 [of Upto_3_11 overspent] allocation_f64 [of From_3_12 example_transactions]
  unfolding plot_dashboard_f64_overspent plot_dashboard_f64_example fsub_example
  by (simp add: fsub_def rnd_eval)

text \<open>
  C7. On the empty list \<^verbatim>\<open>plot_dashboard\<close> has total income 0 and total expense 0, two
  empty dicts and no allocation data (nor any other chart), and the script, which does
  not call it on the empty list, shows no dashboard at all.
\<close>

theorem summarize_empty:
  "total_income (plot_dashboard []) = 0 \<and> total_expense (plot_dashboard []) = 0 \<and>
   balance (plot_dashboard []) = 0 \<and>
   income_by_cat (plot_dashboard []) = [] \<and> expense_by_cat (plot_dashboard []) = [] \<and>
   income_chart (plot_dashboard []) = None \<and> expense_chart (plot_dashboard []) = None \<and>
   allocation (plot_dashboard []) = None \<and>
   dashboard_display initial_state = None"
  by (simp add: plot_dashboard_def dict_values_def allocation_chart_def
      dashboard_display_def initial_state_def)

subsection \<open>The transaction store\<close>

text \<open>
  C3, as stated, fails. On the store of the four example transactions position 0 is
  valid; deleting it succeeds, and deleting position 0 again succeeds as well, since
  the second row has moved into it.
\<close>

theorem second_delete_counterexample:
  "0 < length (transactions example_state) \<and>
   fst (delete_button 0 example_state) = None \<and>
   fst (delete_button 0 (snd (delete_button 0 example_state))) = None \<and>
   fst (delete_button 0 (snd (delete_button 0 example_state))) \<noteq> Some IndexError"
  by (simp add: example_state_def example_transactions_def delete_button_def pop_def)

text \<open>
  C3, amended. For every store of \<open>n\<close> transactions and every valid index \<open>i < n\<close>,
  deleting position \<open>i\<close> succeeds, and deleting position \<open>i\<close> a second time raises
  \<^verbatim>\<open>IndexError\<close> exactly when \<open>i\<close> was the last position (\<open>i + 1 = n\<close>). When it was not,
  the second deletion succeeds and removes the row that was at position \<open>i + 1\<close>.
\<close>

theorem second_delete:
  assumes "i < length (transactions s)"
  shows "fst (delete_button i s) = None \<and>
         (fst (delete_button i (snd (delete_button i s))) = Some IndexError
            \<longleftrightarrow> Suc i = length (transactions s)) \<and>
         (Suc i < length (transactions s) \<longrightarrow>
            delete_button i (snd (delete_button i s)) =
              (None, s\<lparr>transactions :=
                 take i (transactions s) @ drop (Suc (Suc i)) (transactions s)\<rparr>))"
proof -
  let ?s1 = "s\<lparr>transactions := take i (transactions s) @ drop (Suc i) (transactions s)\<rparr>"
  have first: "delete_button i s = (None, ?s1)"
    using assms by (rule delete_button_ok)
  have len: "length (transactions ?s1) = length (transactions s) - 1"
    using assms by (simp add: min_def)
  show ?thesis
  proof (cases "Suc i < length (transactions s)")
    case True
    then have "i < length (transactions ?s1)" using len by simp
    from delete_button_ok[OF this] True assms show ?thesis
      by (simp add: first min_def)
  next
    case False
    then have "\<not> i < length (transactions ?s1)" using len by simp
    from delete_button_fail[OF this] False assms show ?thesis
      by (simp add: first)
  qed
qed

theorem second_delete_witness:
  "3 < length (transactions example_state) \<and>
   fst (delete_button 3 example_state) = None \<and>
   fst (delete_button 3 (snd (delete_button 3 example_state))) = Some IndexError \<and>
   1 < length (transactions example_state) \<and>
   delete_button 1 (snd (delete_button 1 example_state)) =
     (None, \<lparr>transactions =
        [\<lparr>ttype = ''income'', category = ''Salary'', amount = 1000\<rparr>,
         \<lparr>ttype = ''expense'', category = ''Groceries'', amount = 300\<rparr>],
        editing_index = None\<rparr>)"
  using second_delete [of 3 example_state] second_delete [of 1 example_state]
  by (simp add: example_state_def example_transactions_def)



text \<open>
  C5. For every store state and every transaction, saving while the edit index is not a
  position of the list raises \<^verbatim>\<open>IndexError\<close> (the specification's IndexOutOfRange) and
  leaves the session state, the store included, as it was. Reading the form defaults in
  such a state raises \<^verbatim>\<open>IndexError\<close> too.
\<close>

theorem update_out_of_range:
  assumes "editing_index s = Some i" and "\<not> i < length (transactions s)"
  shows "save_transaction t s = (Some IndexError, s) \<and> form_defaults s = Inl IndexError"
  using assms by (simp add: save_transaction_def form_defaults_def)

theorem update_out_of_range_witness:
  "editing_index stale_edit_state = Some 4 \<and> \<not> 4 < length (transactions stale_edit_state) \<and>
   save_transaction zero_amount stale_edit_state = (Some IndexError, stale_edit_state)"
proof -
  have h1: "editing_index stale_edit_state = Some 4" by (simp add: stale_edit_state_def)
  have h2: "\<not> 4 < length (transactions stale_edit_state)"
    by (simp add: stale_edit_state_def example_transactions_def)
  show ?thesis using h1 h2 update_out_of_range [OF h1 h2, of zero_amount] by simp
qed

text \<open>
  C6 does not hold of the program, which cannot add. In a fresh session the user fills
  the form with Income, Salary, 1000.00 and presses save: the run creates the amount
  widget with the default 0.0 of line 96 against its \<^verbatim>\<open>min_value\<close> of 0.01, which
  raises \<^verbatim>\<open>StreamlitAPIException\<close> at line 101, before the save button of line 103
  exists; the append of line 111 is not reached and the store stays empty. The same
  happens in every run while no edit is in progress, so whatever the user does in a
  session that starts fresh, the session state stays the initial one and the list of
  transactions stays empty.
\<close>

theorem add_never_appends:
  "run_script add_attempt initial_state = (Some StreamlitAPIException, initial_state) \<and>
   run_session us initial_state = initial_state \<and>
   transactions (run_session us initial_state) = []"
proof -
  have h: "editing_index initial_state = None" by (simp add: initial_state_def)
  show ?thesis
    by (simp add: run_script_no_edit[OF h] run_session_no_edit[OF h]) (simp add: initial_state_def)
qed

text \<open>
  C10. For every session state with an edit in progress at position \<open>k\<close>, pressing
  delete on any row \<open>i\<close> leaves the edit index at \<open>k\<close>: it is neither cleared nor moved.
  A save after the deletion therefore targets position \<open>k\<close> of the list as it is now: it
  replaces the row at \<open>k\<close> when the list still has one, and raises \<^verbatim>\<open>IndexError\<close> when it
  has not.
\<close>

theorem delete_keeps_editing_index:
  assumes "editing_index s = Some k"
  shows "editing_index (snd (delete_button i s)) = Some k \<and>
         save_transaction t (snd (delete_button i s)) =
           (if k < length (transactions (snd (delete_button i s)))
            then (None, (snd (delete_button i s))
                    \<lparr>transactions := (transactions (snd (delete_button i s)))[k := t],
                     editing_index := None\<rparr>)
            else (Some IndexError, snd (delete_button i s)))"
proof -
  have "editing_index (snd (delete_button i s)) = Some k"
    using assms by (simp add: delete_button_def split: option.split)
  then show ?thesis by (simp add: save_transaction_def)
qed

theorem delete_keeps_editing_index_witness:
  "editing_index editing_state = Some 1 \<and>
   editing_index (snd (delete_button 0 editing_state)) = Some 1 \<and>
   save_transaction zero_amount (snd (delete_button 0 editing_state)) =
     (None, \<lparr>transactions =
        [\<lparr>ttype = ''income'', category = ''Gifts'', amount = 200\<rparr>,
         zero_amount,
         \<lparr>ttype = ''expense'', category = ''Groceries'', amount = 300\<rparr>],
        editing_index = None\<rparr>)"
proof -
  have h: "editing_index editing_state = Some 1" by (simp add: editing_state_def)
  show ?thesis
    using h delete_keeps_editing_index [OF h, of 0 zero_amount]
    by (simp add: editing_state_def example_transactions_def delete_button_def pop_def)
qed

subsection \<open>Category vocabularies\<close>

text \<open>
  C8. The income category list of the program is exactly the 11 labels of the
  specification and the expense category list exactly its 19 labels, in the same order
  and spelling.
\<close>

theorem category_vocabularies:
  "income_categories = spec_income_vocabulary \<and> length income_categories = 11 \<and>
   expense_categories = spec_expense_vocabulary \<and> length expense_categories = 19"
  by (simp add: income_categories_def expense_categories_def
      spec_income_vocabulary_def spec_expense_vocabulary_def)

end
